theory Spec2Isabelle
  imports Complex_Main "HOL-Library.Sublist"
begin

section \<open>Consultation form: data model\<close>

text \<open>
  The consultation page (\<^verbatim>\<open>src/pages/consultation/ConsultationPage.tsx\<close>) keeps its
  clinical record in a react-hook-form store and its search inputs in component state.
  A numeric input registered with \<^verbatim>\<open>valueAsNumber\<close> holds \<^verbatim>\<open>undefined\<close>, \<^verbatim>\<open>NaN\<close>
  (an empty input) or a number, held as the real it denotes.
\<close>

datatype jsnum = Undefined | NaN | Num real

text \<open>JavaScript truthiness of such a value: \<^verbatim>\<open>undefined\<close>, \<^verbatim>\<open>NaN\<close> and \<^verbatim>\<open>0\<close> are falsy.\<close>

fun truthy :: "jsnum \<Rightarrow> bool" where
  "truthy Undefined = False"
| "truthy NaN = False"
| "truthy (Num x) = (x \<noteq> 0)"

record symptom =
  sym_name :: string
  sym_severity :: string
  sym_duration :: string

datatype diagnosis_type = primary | secondary

record diagnosis =
  dx_code :: string
  dx_name :: string
  dx_type :: diagnosis_type

record medication =
  med_type :: string
  med_name :: string
  med_dose :: string
  med_frequency :: string
  med_duration :: string
  med_quantity :: string
  med_instruction :: string

datatype investigation_type = lab | radiology

record investigation =
  inv_type :: investigation_type
  inv_name :: string
  inv_urgency :: string
  inv_instructions :: string

record advice =
  adv_category :: string
  adv_text :: string

record consultation_form =
  weight :: jsnum
  height :: jsnum
  bmi :: jsnum
  bsa :: jsnum
  systolic :: jsnum
  diastolic :: jsnum
  pulse :: jsnum
  temperature :: jsnum
  spo2 :: jsnum
  symptoms :: "symptom list"
  diagnosis :: "diagnosis list"
  medications :: "medication list"
  investigations :: "investigation list"
  advice :: "advice list"
  followUpDate :: "string option"
  followUpDuration :: "string option"
  clinicalNotes :: "string option"
  treatmentPlan :: "string option"

text \<open>The page: the form values and the five search inputs.\<close>

record page =
  form :: consultation_form
  symptomSearch :: string
  diagnosisSearch :: string
  medicationSearch :: string
  labSearch :: string
  radiologySearch :: string

section \<open>Field arrays\<close>

text \<open>
  \<^verbatim>\<open>useFieldArray\<close> gives each list section an \<^verbatim>\<open>append\<close> that adds one entry at the
  end and a \<^verbatim>\<open>remove(index)\<close> that splices one entry out at a position; a position past
  the end removes nothing.
\<close>

definition append_entry :: "'a list \<Rightarrow> 'a \<Rightarrow> 'a list" where
  "append_entry xs x = xs @ [x]"

fun remove_at :: "nat \<Rightarrow> 'a list \<Rightarrow> 'a list" where
  "remove_at i [] = []"
| "remove_at 0 (x # xs) = xs"
| "remove_at (Suc i) (x # xs) = x # remove_at i xs"

definition appendSymptom :: "symptom \<Rightarrow> consultation_form \<Rightarrow> consultation_form" where
  "appendSymptom e f = f\<lparr>symptoms := append_entry (symptoms f) e\<rparr>"

definition appendDiagnosis :: "diagnosis \<Rightarrow> consultation_form \<Rightarrow> consultation_form" where
  "appendDiagnosis e f = f\<lparr>diagnosis := append_entry (diagnosis f) e\<rparr>"

definition appendMedication :: "medication \<Rightarrow> consultation_form \<Rightarrow> consultation_form" where
  "appendMedication e f = f\<lparr>medications := append_entry (medications f) e\<rparr>"

definition appendInvestigation :: "investigation \<Rightarrow> consultation_form \<Rightarrow> consultation_form" where
  "appendInvestigation e f = f\<lparr>investigations := append_entry (investigations f) e\<rparr>"

definition appendAdvice :: "advice \<Rightarrow> consultation_form \<Rightarrow> consultation_form" where
  "appendAdvice e f = f\<lparr>advice := append_entry (advice f) e\<rparr>"

definition removeSymptom :: "nat \<Rightarrow> page \<Rightarrow> page" where
  "removeSymptom i p = p\<lparr>form := (form p)\<lparr>symptoms := remove_at i (symptoms (form p))\<rparr>\<rparr>"

definition removeDiagnosis :: "nat \<Rightarrow> page \<Rightarrow> page" where
  "removeDiagnosis i p = p\<lparr>form := (form p)\<lparr>diagnosis := remove_at i (diagnosis (form p))\<rparr>\<rparr>"

definition removeMedication :: "nat \<Rightarrow> page \<Rightarrow> page" where
  "removeMedication i p = p\<lparr>form := (form p)\<lparr>medications := remove_at i (medications (form p))\<rparr>\<rparr>"

definition removeInvestigation :: "nat \<Rightarrow> page \<Rightarrow> page" where
  "removeInvestigation i p =
     p\<lparr>form := (form p)\<lparr>investigations := remove_at i (investigations (form p))\<rparr>\<rparr>"

definition removeAdvice :: "nat \<Rightarrow> page \<Rightarrow> page" where
  "removeAdvice i p = p\<lparr>form := (form p)\<lparr>advice := remove_at i (advice (form p))\<rparr>\<rparr>"

section \<open>Add operations\<close>

definition addSymptom :: "string \<Rightarrow> page \<Rightarrow> page" where
  "addSymptom symptomName p =
     p\<lparr>form := appendSymptom
          \<lparr>sym_name = symptomName, sym_severity = ''Mild'', sym_duration = ''1 day''\<rparr> (form p),
       symptomSearch := ''''\<rparr>"

text \<open>\<^verbatim>\<open>addDiagnosis\<close> receives a catalogue entry and reads its code and name.\<close>

definition addDiagnosis :: "string \<times> string \<Rightarrow> page \<Rightarrow> page" where
  "addDiagnosis d p =
     p\<lparr>form := appendDiagnosis \<lparr>dx_code = fst d, dx_name = snd d, dx_type = primary\<rparr> (form p),
       diagnosisSearch := ''''\<rparr>"

definition addMedication :: "page \<Rightarrow> page" where
  "addMedication p =
     p\<lparr>form := appendMedication
          \<lparr>med_type = ''Tablet'', med_name = '''', med_dose = '''', med_frequency = ''BD'',
           med_duration = ''5 days'', med_quantity = ''10'', med_instruction = ''After food''\<rparr>
          (form p)\<rparr>"

definition addLabInvestigation :: "string \<Rightarrow> page \<Rightarrow> page" where
  "addLabInvestigation testName p =
     p\<lparr>form := appendInvestigation
          \<lparr>inv_type = lab, inv_name = testName, inv_urgency = ''Routine'', inv_instructions = ''''\<rparr>
          (form p),
       labSearch := ''''\<rparr>"

definition addRadiologyInvestigation :: "string \<Rightarrow> page \<Rightarrow> page" where
  "addRadiologyInvestigation testName p =
     p\<lparr>form := appendInvestigation
          \<lparr>inv_type = radiology, inv_name = testName, inv_urgency = ''Routine'',
           inv_instructions = ''''\<rparr>
          (form p),
       radiologySearch := ''''\<rparr>"

definition addAdviceFromCategory :: "string \<Rightarrow> string \<Rightarrow> page \<Rightarrow> page" where
  "addAdviceFromCategory category adviceText p =
     p\<lparr>form := appendAdvice \<lparr>adv_category = category, adv_text = adviceText\<rparr> (form p)\<rparr>"

section \<open>Default values\<close>

text \<open>
  The form's default values (\<^verbatim>\<open>useForm({defaultValues: ...})\<close>): the five lists are
  empty and every other field is \<^verbatim>\<open>undefined\<close>.
\<close>

definition defaultValues :: consultation_form where
  "defaultValues =
     \<lparr>weight = Undefined, height = Undefined, bmi = Undefined, bsa = Undefined,
      systolic = Undefined, diastolic = Undefined, pulse = Undefined,
      temperature = Undefined, spo2 = Undefined,
      symptoms = [], diagnosis = [], medications = [], investigations = [], advice = [],
      followUpDate = None, followUpDuration = None, clinicalNotes = None,
      treatmentPlan = None\<rparr>"

section \<open>Validation schema\<close>

text \<open>
  \<^verbatim>\<open>z.number().min(lo).max(hi).optional()\<close>: \<^verbatim>\<open>undefined\<close> passes, \<^verbatim>\<open>NaN\<close> is not a
  number, a number passes inside the closed range. \<^verbatim>\<open>z.number().optional()\<close> has no range.
\<close>

fun number_min_max :: "real \<Rightarrow> real \<Rightarrow> jsnum \<Rightarrow> bool" where
  "number_min_max lo hi Undefined = True"
| "number_min_max lo hi NaN = False"
| "number_min_max lo hi (Num x) = (lo \<le> x \<and> x \<le> hi)"

fun number_optional :: "jsnum \<Rightarrow> bool" where
  "number_optional Undefined = True"
| "number_optional NaN = False"
| "number_optional (Num x) = True"

definition issue :: "string \<Rightarrow> bool \<Rightarrow> string list" where
  "issue path ok = (if ok then [] else [path])"

text \<open>
  The schema's issues, by field path, in the order of the schema's keys. The list
  sections and the text fields are typed here as the schema requires them, so they raise
  no issue.
\<close>

definition consultationSchema :: "consultation_form \<Rightarrow> string list" where
  "consultationSchema f =
     issue ''weight'' (number_min_max 0 500 (weight f))
     @ issue ''height'' (number_min_max 0 300 (height f))
     @ issue ''bmi'' (number_optional (bmi f))
     @ issue ''bsa'' (number_optional (bsa f))
     @ issue ''systolic'' (number_min_max 50 300 (systolic f))
     @ issue ''diastolic'' (number_min_max 30 200 (diastolic f))
     @ issue ''pulse'' (number_min_max 30 200 (pulse f))
     @ issue ''temperature'' (number_min_max 90 110 (temperature f))
     @ issue ''spo2'' (number_min_max 70 100 (spo2 f))"

section \<open>Save pipeline\<close>

record app_user =
  user_id :: string
  hospital_id :: "string option"
  role :: string
  is_active :: bool

record vital_signs =
  vs_weight :: jsnum
  vs_height :: jsnum
  vs_bmi :: jsnum
  vs_bsa :: jsnum
  blood_pressure :: "string option"
  vs_pulse :: jsnum
  vs_temperature :: jsnum
  vs_spo2 :: jsnum

record prescription =
  rx_medications :: "medication list"
  rx_investigations :: "investigation list"
  rx_advice :: "advice list"

record appointment_patch =
  status :: string
  vital_signs :: vital_signs
  patch_symptoms :: "symptom list"
  patch_diagnosis :: string
  prescription :: prescription
  follow_up_date :: "string option"
  patch_notes :: "string option"
  updated_at :: string

text \<open>Decimal digits of a natural number.\<close>

definition digit_char :: "nat \<Rightarrow> char" where
  "digit_char n = ''0123456789'' ! n"

fun nat_to_string :: "nat \<Rightarrow> string" where
  "nat_to_string n =
     (if n < 10 then [digit_char n] else nat_to_string (n div 10) @ [digit_char (n mod 10)])"

declare nat_to_string.simps [simp del]

text \<open>
  A number inside a template literal is rendered by \<^verbatim>\<open>Number::toString\<close>: a whole number
  below \<open>10\<^sup>2\<^sup>1\<close> prints as its decimal digits, with a minus sign when negative. How any
  other number prints is left to the parameter \<open>fractional\<close>.
\<close>

definition Number_toString :: "(real \<Rightarrow> string) \<Rightarrow> real \<Rightarrow> string" where
  "Number_toString fractional x =
     (if x \<in> \<int> \<and> \<bar>x\<bar> < 10 ^ 21
      then (if x < 0 then ''-'' else '''') @ nat_to_string (nat \<bar>\<lfloor>x\<rfloor>\<bar>)
      else fractional x)"

text \<open>\<^verbatim>\<open>data.systolic && data.diastolic ? `${data.systolic}/${data.diastolic}` : null\<close>\<close>

definition blood_pressure_of :: "(real \<Rightarrow> string) \<Rightarrow> jsnum \<Rightarrow> jsnum \<Rightarrow> string option" where
  "blood_pressure_of fractional s d =
     (case (s, d) of
        (Num x, Num y) \<Rightarrow>
          if truthy s \<and> truthy d
          then Some (Number_toString fractional x @ ''/'' @ Number_toString fractional y)
          else None
      | _ \<Rightarrow> None)"

text \<open>\<^verbatim>\<open>names.join(', ')\<close>\<close>

fun join_comma :: "string list \<Rightarrow> string" where
  "join_comma [] = ''''"
| "join_comma [x] = x"
| "join_comma (x # y # ys) = x @ '', '' @ join_comma (y # ys)"

text \<open>The object handed to \<^verbatim>\<open>.update(...)\<close>; \<open>now\<close> is \<^verbatim>\<open>new Date().toISOString()\<close>.\<close>

definition update_patch :: "(real \<Rightarrow> string) \<Rightarrow> string \<Rightarrow> consultation_form \<Rightarrow> appointment_patch"
  where
  "update_patch fractional now data =
     \<lparr>status = ''completed'',
      vital_signs =
        \<lparr>vs_weight = weight data, vs_height = height data, vs_bmi = bmi data,
         vs_bsa = bsa data,
         blood_pressure = blood_pressure_of fractional (systolic data) (diastolic data),
         vs_pulse = pulse data, vs_temperature = temperature data, vs_spo2 = spo2 data\<rparr>,
      patch_symptoms = symptoms data,
      patch_diagnosis = join_comma (map dx_name (diagnosis data)),
      prescription =
        \<lparr>rx_medications = medications data, rx_investigations = investigations data,
         rx_advice = advice data\<rparr>,
      follow_up_date = followUpDate data,
      patch_notes = clinicalNotes data,
      updated_at = now\<rparr>"

text \<open>
  What the page reads from its surroundings: the route parameter, and the hospital id
  and user of the auth hook. An empty string is falsy, like \<^verbatim>\<open>undefined\<close> and \<^verbatim>\<open>null\<close>.
\<close>

record submit_context =
  appointmentId :: "string option"
  ctx_hospitalId :: "string option"
  ctx_user :: "app_user option"

definition truthy_string :: "string option \<Rightarrow> bool" where
  "truthy_string s = (case s of None \<Rightarrow> False | Some v \<Rightarrow> v \<noteq> [])"

datatype submit_result =
  ValidationFailed "string list"
| NotSubmitted
| Saved
| SaveFailed string

text \<open>
  One call of the appointment store: \<^verbatim>\<open>.from('appointments').update(patch).eq('id', id)\<close>.
  The store answers with an error message or with none; an error that is thrown and one
  that is returned end in the same \<^verbatim>\<open>catch\<close> block.
\<close>

type_synonym update_call = "string \<times> appointment_patch"

definition onSubmit ::
  "submit_context \<Rightarrow> (real \<Rightarrow> string) \<Rightarrow> string \<Rightarrow> (update_call \<Rightarrow> string option)
     \<Rightarrow> consultation_form \<Rightarrow> submit_result \<times> update_call list" where
  "onSubmit ctx fractional now store data =
     (if \<not> truthy_string (appointmentId ctx) \<or> \<not> truthy_string (ctx_hospitalId ctx)
         \<or> ctx_user ctx = None
      then (NotSubmitted, [])
      else
        (let call = (the (appointmentId ctx), update_patch fractional now data) in
         case store call of
           Some message \<Rightarrow> (SaveFailed message, [call])
         | None \<Rightarrow> (Saved, [call])))"

text \<open>
  \<^verbatim>\<open>handleSubmit(onSubmit)\<close> with the schema as resolver: the handler runs only when the
  schema raises no issue; otherwise the issues become the form's field errors.
\<close>

definition handleSubmit ::
  "submit_context \<Rightarrow> (real \<Rightarrow> string) \<Rightarrow> string \<Rightarrow> (update_call \<Rightarrow> string option)
     \<Rightarrow> consultation_form \<Rightarrow> submit_result \<times> update_call list" where
  "handleSubmit ctx fractional now store values =
     (case consultationSchema values of
        [] \<Rightarrow> onSubmit ctx fractional now store values
      | e # es \<Rightarrow> (ValidationFailed (e # es), []))"

text \<open>A number that lies outside the closed range \<open>[lo, hi]\<close>.\<close>

fun out_of_range :: "real \<Rightarrow> real \<Rightarrow> jsnum \<Rightarrow> bool" where
  "out_of_range lo hi (Num x) = (x < lo \<or> hi < x)"
| "out_of_range lo hi Undefined = False"
| "out_of_range lo hi NaN = False"

text \<open>A context in which the page can save: an appointment, a hospital and a user.\<close>

definition example_context :: submit_context where
  "example_context =
     \<lparr>appointmentId = Some ''apt-1'', ctx_hospitalId = Some ''hosp-1'',
      ctx_user = Some \<lparr>user_id = ''u-1'', hospital_id = Some ''hosp-1'', role = ''doctor'',
                       is_active = True\<rparr>\<rparr>"

section \<open>Follow-up quick pick\<close>

text \<open>
  A JavaScript \<^verbatim>\<open>Date\<close> as the quick pick uses it: the calendar date and the minute of
  the day on the local clock. Months count from 0, as \<^verbatim>\<open>getMonth\<close> does.
\<close>

record civil_date =
  year :: nat
  month :: nat
  day :: nat

record js_date =
  local_date :: civil_date
  minute_of_day :: nat

definition is_leap :: "nat \<Rightarrow> bool" where
  "is_leap y = ((y mod 4 = 0 \<and> y mod 100 \<noteq> 0) \<or> y mod 400 = 0)"

definition days_in_month :: "nat \<Rightarrow> nat \<Rightarrow> nat" where
  "days_in_month y m =
     (if m = 1 then (if is_leap y then 29 else 28)
      else if m = 3 \<or> m = 5 \<or> m = 8 \<or> m = 10 then 30 else 31)"

definition next_day :: "civil_date \<Rightarrow> civil_date" where
  "next_day d =
     (if day d < days_in_month (year d) (month d) then d\<lparr>day := day d + 1\<rparr>
      else if month d < 11 then \<lparr>year = year d, month = month d + 1, day = 1\<rparr>
      else \<lparr>year = year d + 1, month = 0, day = 1\<rparr>)"

definition prev_day :: "civil_date \<Rightarrow> civil_date" where
  "prev_day d =
     (if 1 < day d then d\<lparr>day := day d - 1\<rparr>
      else if 0 < month d
        then \<lparr>year = year d, month = month d - 1, day = days_in_month (year d) (month d - 1)\<rparr>
      else \<lparr>year = year d - 1, month = 11, day = 31\<rparr>)"

primrec add_days :: "nat \<Rightarrow> civil_date \<Rightarrow> civil_date" where
  "add_days 0 d = d"
| "add_days (Suc n) d = add_days n (next_day d)"

text \<open>
  \<^verbatim>\<open>setDate(n)\<close> and \<^verbatim>\<open>setMonth(m)\<close> keep the local clock time and move the date to day
  \<open>n\<close> of the current month, or to the current day of month \<open>m\<close> of the current year,
  counting on from the first of that month: a day past the month's end runs into the next
  month, a month past December into the next year; day 0 is the last day of the month
  before.
\<close>

definition getDate :: "js_date \<Rightarrow> nat" where
  "getDate t = day (local_date t)"

definition getMonth :: "js_date \<Rightarrow> nat" where
  "getMonth t = month (local_date t)"

definition setDate :: "nat \<Rightarrow> js_date \<Rightarrow> js_date" where
  "setDate n t =
     t\<lparr>local_date :=
         (if n = 0 then prev_day ((local_date t)\<lparr>day := 1\<rparr>)
          else add_days (n - 1) ((local_date t)\<lparr>day := 1\<rparr>))\<rparr>"

definition setMonth :: "nat \<Rightarrow> js_date \<Rightarrow> js_date" where
  "setMonth m t =
     t\<lparr>local_date := add_days (day (local_date t) - 1)
          \<lparr>year = year (local_date t) + m div 12, month = m mod 12, day = 1\<rparr>\<rparr>"

definition pad2 :: "nat \<Rightarrow> string" where
  "pad2 n = (if n < 10 then ''0'' else '''') @ nat_to_string n"

definition pad4 :: "nat \<Rightarrow> string" where
  "pad4 n =
     (if n < 10 then ''000'' else if n < 100 then ''00'' else if n < 1000 then ''0'' else '''')
     @ nat_to_string n"

text \<open>
  \<^verbatim>\<open>toISOString().split('T')[0]\<close> is the calendar date in UTC, for years up to 9999.
  \<open>tz\<close> is the local clock's offset east of UTC in minutes at that moment, between
  \<open>-720\<close> and \<open>840\<close>, so the UTC date is the local date, the day before or the day after.
\<close>

definition utc_date :: "int \<Rightarrow> js_date \<Rightarrow> civil_date" where
  "utc_date tz t =
     (let m = int (minute_of_day t) - tz in
      if m < 0 then prev_day (local_date t)
      else if 1440 \<le> m then next_day (local_date t)
      else local_date t)"

definition iso_date_string :: "civil_date \<Rightarrow> string" where
  "iso_date_string d = pad4 (year d) @ ''-'' @ pad2 (month d + 1) @ ''-'' @ pad2 (day d)"

text \<open>The click handler of a quick-pick button; \<open>now\<close> is \<^verbatim>\<open>new Date()\<close>.\<close>

definition quickPick :: "int \<Rightarrow> js_date \<Rightarrow> string \<Rightarrow> consultation_form \<Rightarrow> consultation_form" where
  "quickPick tz now duration f =
     (let date =
        (if duration = ''1 week'' then setDate (getDate now + 7) now
         else if duration = ''2 weeks'' then setDate (getDate now + 14) now
         else if duration = ''1 month'' then setMonth (getMonth now + 1) now
         else if duration = ''3 months'' then setMonth (getMonth now + 3) now
         else if duration = ''6 months'' then setMonth (getMonth now + 6) now
         else now);
          f1 = (if duration \<noteq> ''As needed''
                then f\<lparr>followUpDate := Some (iso_date_string (utc_date tz date))\<rparr>
                else f)
      in f1\<lparr>followUpDuration := Some duration\<rparr>)"

section \<open>Session store\<close>

text \<open>
  The store of \<^verbatim>\<open>src/store/auth.ts\<close>. A session carries its access token, its expiry
  in seconds and the id of its user.
\<close>

record session =
  access_token :: string
  expires_at :: "nat option"
  session_user :: "string option"

record auth_state =
  user :: "app_user option"
  session :: "session option"
  loading :: bool
  hospitalId :: "string option"
  isAuthenticated :: bool

text \<open>
  The store is wrapped in \<^verbatim>\<open>persist\<close> under the name \<^verbatim>\<open>auth-storage\<close>: every \<^verbatim>\<open>set\<close>
  writes the part of the state chosen by \<^verbatim>\<open>partialize\<close> to local storage, and a page
  load merges what is stored there into the initial state.
\<close>

record snapshot =
  snap_user :: "app_user option"
  snap_hospitalId :: "string option"
  snap_isAuthenticated :: bool

record store =
  mem :: auth_state
  storage :: "snapshot option"

definition partialize :: "auth_state \<Rightarrow> snapshot" where
  "partialize s =
     \<lparr>snap_user = user s, snap_hospitalId = hospitalId s,
      snap_isAuthenticated = isAuthenticated s\<rparr>"

definition set_state :: "(auth_state \<Rightarrow> auth_state) \<Rightarrow> store \<Rightarrow> store" where
  "set_state upd st = (let m = upd (mem st) in \<lparr>mem = m, storage = Some (partialize m)\<rparr>)"

definition initial_state :: auth_state where
  "initial_state =
     \<lparr>user = None, session = None, loading = True, hospitalId = None,
      isAuthenticated = False\<rparr>"

definition initial_store :: store where
  "initial_store = \<lparr>mem = initial_state, storage = None\<rparr>"

definition rehydrate :: "store \<Rightarrow> store" where
  "rehydrate st =
     st\<lparr>mem :=
       (case storage st of
          None \<Rightarrow> initial_state
        | Some snap \<Rightarrow>
            initial_state\<lparr>user := snap_user snap, hospitalId := snap_hospitalId snap,
              isAuthenticated := snap_isAuthenticated snap\<rparr>)\<rparr>"

text \<open>
  What the backend answers is a parameter of each action. An awaited call is rejected
  (it throws, with a message) or resolved with a value. A resolved call of the auth or
  data service reports its own failure in the value: an error message, or none.
  A query ending in \<^verbatim>\<open>.single()\<close> resolves with exactly one row or with an error.
\<close>

datatype 'a awaited = Rejected string | Resolved 'a

datatype 'a single = QueryError string | Row 'a

record signin_response =
  data_user :: "string option"
  data_session :: "session option"
  signin_error :: "string option"

datatype action_result = Success | Failure string

definition setLoading :: "bool \<Rightarrow> store \<Rightarrow> store" where
  "setLoading b = set_state (\<lambda>s. s\<lparr>loading := b\<rparr>)"

definition setSession :: "session option \<Rightarrow> store \<Rightarrow> store" where
  "setSession x = set_state (\<lambda>s. s\<lparr>session := x\<rparr>)"

text \<open>\<^verbatim>\<open>user?.hospital_id || null\<close>: an empty id counts as none.\<close>

definition or_null :: "string option \<Rightarrow> string option" where
  "or_null h = (if truthy_string h then h else None)"

definition setUser :: "app_user option \<Rightarrow> store \<Rightarrow> store" where
  "setUser u =
     set_state (\<lambda>s. s\<lparr>user := u,
       hospitalId := (case u of None \<Rightarrow> None | Some p \<Rightarrow> or_null (hospital_id p)),
       isAuthenticated := (u \<noteq> None)\<rparr>)"

definition signIn ::
  "signin_response awaited \<Rightarrow> app_user single awaited \<Rightarrow> string option awaited
     \<Rightarrow> store \<Rightarrow> action_result \<times> store" where
  "signIn credentials profile lastLogin st =
     (let st1 = set_state (\<lambda>s. s\<lparr>loading := True\<rparr>) st;
          caught = (\<lambda>message st'. (Failure message, set_state (\<lambda>s. s\<lparr>loading := False\<rparr>) st'))
      in case credentials of
           Rejected message \<Rightarrow> caught message st1
         | Resolved r \<Rightarrow>
             (case signin_error r of
                Some message \<Rightarrow> (Failure message, st1)
              | None \<Rightarrow>
                  (case data_user r of
                     None \<Rightarrow> (Failure ''Authentication failed'', st1)
                   | Some uid \<Rightarrow>
                       (case profile of
                          Rejected message \<Rightarrow> caught message st1
                        | Resolved (QueryError e) \<Rightarrow>
                            (Failure ''Failed to fetch user profile'', st1)
                        | Resolved (Row userProfile) \<Rightarrow>
                            (let st2 = set_state (\<lambda>s. s\<lparr>user := Some userProfile,
                                   session := data_session r,
                                   hospitalId := hospital_id userProfile,
                                   isAuthenticated := True,
                                   loading := False\<rparr>) st1
                             in case lastLogin of
                                  Rejected message \<Rightarrow> caught message st2
                                | Resolved w \<Rightarrow> (Success, st2))))))"

definition signUp ::
  "signin_response awaited \<Rightarrow> string option awaited \<Rightarrow> store \<Rightarrow> action_result \<times> store"
  where
  "signUp registration profileInsert st =
     (let st1 = set_state (\<lambda>s. s\<lparr>loading := True\<rparr>) st;
          caught = (\<lambda>message. (Failure message, set_state (\<lambda>s. s\<lparr>loading := False\<rparr>) st1))
      in case registration of
           Rejected message \<Rightarrow> caught message
         | Resolved r \<Rightarrow>
             (case signin_error r of
                Some message \<Rightarrow> (Failure message, st1)
              | None \<Rightarrow>
                  (case data_user r of
                     None \<Rightarrow> (Failure ''Registration failed'', st1)
                   | Some uid \<Rightarrow>
                       (case profileInsert of
                          Rejected message \<Rightarrow> caught message
                        | Resolved (Some e) \<Rightarrow> (Failure ''Failed to create user profile'', st1)
                        | Resolved None \<Rightarrow> (Success, st1)))))"

text \<open>The store's \<^verbatim>\<open>signOut\<close>: the state is cleared after the awaited backend call; a
  rejected call is logged and nothing else happens.\<close>

definition store_signOut :: "string option awaited \<Rightarrow> store \<Rightarrow> store" where
  "store_signOut backend st =
     (case backend of
        Rejected message \<Rightarrow> st
      | Resolved r \<Rightarrow>
          set_state (\<lambda>s. s\<lparr>user := None, session := None, hospitalId := None,
            isAuthenticated := False, loading := False\<rparr>) st)"

text \<open>
  \<^verbatim>\<open>updateProfile\<close> reads the user from the store, awaits the backend's update and only
  then writes. Other actions can run during the await, so the two halves are separate
  steps: the start, which fails when no user is there and otherwise hands on the user whose
  row is to be updated, and the resumption once the backend has answered.
\<close>

definition updateProfile_start :: "store \<Rightarrow> action_result + app_user" where
  "updateProfile_start st =
     (case user (mem st) of
        None \<Rightarrow> Inl (Failure ''No user logged in'')
      | Some u \<Rightarrow> Inr u)"

definition updateProfile_resume ::
  "app_user single awaited \<Rightarrow> store \<Rightarrow> action_result \<times> store" where
  "updateProfile_resume updated st =
     (case updated of
        Rejected message \<Rightarrow> (Failure message, st)
      | Resolved (QueryError message) \<Rightarrow> (Failure message, st)
      | Resolved (Row updatedUser) \<Rightarrow>
          (Success, set_state (\<lambda>s. s\<lparr>user := Some updatedUser\<rparr>) st))"

definition initialize :: "session option awaited \<Rightarrow> app_user single awaited \<Rightarrow> store \<Rightarrow> store"
  where
  "initialize current profile st =
     (let st1 = set_state (\<lambda>s. s\<lparr>loading := True\<rparr>) st;
          st2 =
            (case current of
               Rejected message \<Rightarrow> st1
             | Resolved None \<Rightarrow> st1
             | Resolved (Some sess) \<Rightarrow>
                 (case session_user sess of
                    None \<Rightarrow> st1
                  | Some uid \<Rightarrow>
                      (case profile of
                         Rejected message \<Rightarrow> st1
                       | Resolved (QueryError e) \<Rightarrow> st1
                       | Resolved (Row userProfile) \<Rightarrow>
                           set_state (\<lambda>s. s\<lparr>user := Some userProfile,
                             session := Some sess,
                             hospitalId := hospital_id userProfile,
                             isAuthenticated := True\<rparr>) st1)))
      in set_state (\<lambda>s. s\<lparr>loading := False\<rparr>) st2)"

section \<open>Auth lifecycle hook\<close>

text \<open>
  The hook \<^verbatim>\<open>useAuth\<close> wraps the store. Its \<^verbatim>\<open>signOut\<close> calls the store's, removes the
  \<^verbatim>\<open>auth-storage\<close> entry, sends the browser to \<^verbatim>\<open>/login\<close> and, in its \<^verbatim>\<open>finally\<close> block,
  sets \<^verbatim>\<open>loading\<close> to false. The second component of the result is the navigation.
\<close>

definition removeItem :: "store \<Rightarrow> store" where
  "removeItem st = st\<lparr>storage := None\<rparr>"

definition useAuth_signOut :: "string option awaited \<Rightarrow> store \<Rightarrow> store \<times> string option" where
  "useAuth_signOut backend st =
     (let st1 = setLoading True st;
          st2 = store_signOut backend st1;
          st3 = removeItem st2
      in (setLoading False st3, Some ''/login''))"

datatype auth_event = SIGNED_IN | SIGNED_OUT | TOKEN_REFRESHED | OTHER_EVENT

definition has_user :: "session option \<Rightarrow> bool" where
  "has_user x = (case x of None \<Rightarrow> False | Some sess \<Rightarrow> session_user sess \<noteq> None)"

text \<open>The hook's listener for the backend's auth events.\<close>

definition onAuthStateChange ::
  "auth_event \<Rightarrow> session option \<Rightarrow> app_user single awaited \<Rightarrow> string option awaited
     \<Rightarrow> store \<Rightarrow> store" where
  "onAuthStateChange event sess profile lastLogin st =
     (let st1 = setSession sess (setLoading True st);
          st2 =
            (if event = SIGNED_IN \<and> has_user sess then
               (case profile of
                  Rejected message \<Rightarrow> setUser None st1
                | Resolved (QueryError e) \<Rightarrow> setUser None st1
                | Resolved (Row userProfile) \<Rightarrow>
                    (case lastLogin of
                       Rejected message \<Rightarrow> setUser None (setUser (Some userProfile) st1)
                     | Resolved w \<Rightarrow> setUser (Some userProfile) st1))
             else if event = SIGNED_OUT then setUser None st1
             else if event = TOKEN_REFRESHED \<and> has_user sess then
               (case profile of
                  Rejected message \<Rightarrow> setUser None st1
                | Resolved (QueryError e) \<Rightarrow> st1
                | Resolved (Row userProfile) \<Rightarrow> setUser (Some userProfile) st1)
             else st1)
      in setLoading False st2)"

text \<open>
  The listener that \<^verbatim>\<open>src/store/auth.ts\<close> registers itself; it has no \<^verbatim>\<open>catch\<close>, so a
  rejected profile query leaves \<^verbatim>\<open>loading\<close> set.
\<close>

definition store_onAuthStateChange ::
  "auth_event \<Rightarrow> session option \<Rightarrow> app_user single awaited \<Rightarrow> store \<Rightarrow> store" where
  "store_onAuthStateChange event sess profile st =
     (let st1 = setSession sess (setLoading True st) in
      if event = SIGNED_IN \<and> has_user sess then
        (case profile of
           Rejected message \<Rightarrow> st1
         | Resolved (QueryError e) \<Rightarrow> setLoading False st1
         | Resolved (Row userProfile) \<Rightarrow> setLoading False (setUser (Some userProfile) st1))
      else if event = SIGNED_OUT then setLoading False (setUser None st1)
      else setLoading False st1)"

text \<open>
  \<^verbatim>\<open>refreshSession\<close>: the backend's refresh resolves with a session and an error message
  (either may be absent) or is rejected.
\<close>

definition refreshSession ::
  "(session option \<times> string option) awaited \<Rightarrow> app_user single awaited
     \<Rightarrow> string option awaited \<Rightarrow> store \<Rightarrow> store" where
  "refreshSession refreshed profile backend st =
     (let st1 = setLoading True st;
          forced = (\<lambda>st'. fst (useAuth_signOut backend st'));
          st2 =
            (case refreshed of
               Rejected message \<Rightarrow> forced st1
             | Resolved (sess, Some e) \<Rightarrow> forced st1
             | Resolved (sess, None) \<Rightarrow>
                 (if has_user sess then
                    (case profile of
                       Rejected message \<Rightarrow> forced st1
                     | Resolved (QueryError e) \<Rightarrow> st1
                     | Resolved (Row userProfile) \<Rightarrow>
                         setSession sess (setUser (Some userProfile) st1))
                  else st1))
      in setLoading False st2)"

text \<open>
  The states the store can be in. The actions are asynchronous and their awaits let other
  actions run in between, so the steps here are the single writes to the store, in any
  order: every run of the actions above, interleaved or not, is a sequence of them. What
  a write stores comes from the backend's answers alone, except in \<^verbatim>\<open>updateProfile\<close>,
  whose write is made only by a call that found a user when it started; the number counts
  the calls of \<^verbatim>\<open>updateProfile\<close> that have started and not yet resumed. A page load
  restores the store from local storage and drops every pending call.
\<close>

inductive reachable_pending :: "nat \<Rightarrow> store \<Rightarrow> bool" where
  start: "reachable_pending 0 initial_store"
| reload: "reachable_pending n st \<Longrightarrow> reachable_pending 0 (rehydrate st)"
| loading: "reachable_pending n st \<Longrightarrow> reachable_pending n (setLoading b st)"
| session: "reachable_pending n st \<Longrightarrow> reachable_pending n (setSession x st)"
| user: "reachable_pending n st \<Longrightarrow> reachable_pending n (setUser u st)"
| signed_in:
    "reachable_pending n st \<Longrightarrow>
     reachable_pending n
       (set_state (\<lambda>s. s\<lparr>user := Some userProfile, session := x,
          hospitalId := hospital_id userProfile, isAuthenticated := True,
          loading := False\<rparr>) st)"
| initialized:
    "reachable_pending n st \<Longrightarrow>
     reachable_pending n
       (set_state (\<lambda>s. s\<lparr>user := Some userProfile, session := Some sess,
          hospitalId := hospital_id userProfile, isAuthenticated := True\<rparr>) st)"
| signed_out:
    "reachable_pending n st \<Longrightarrow>
     reachable_pending n
       (set_state (\<lambda>s. s\<lparr>user := None, session := None, hospitalId := None,
          isAuthenticated := False, loading := False\<rparr>) st)"
| removed: "reachable_pending n st \<Longrightarrow> reachable_pending n (removeItem st)"
| update_started:
    "reachable_pending n st \<Longrightarrow> updateProfile_start st = Inr u \<Longrightarrow>
     reachable_pending (Suc n) st"
| update_resumed:
    "reachable_pending (Suc n) st \<Longrightarrow>
     reachable_pending n (snd (updateProfile_resume updated st))"

definition reachable :: "store \<Rightarrow> bool" where
  "reachable st = (\<exists>n. reachable_pending n st)"

text \<open>
  The specification's reading of a valid token, at the time \<open>now\<close> in milliseconds: a
  session is present and its expiry (in seconds) lies ahead.
\<close>

definition non_expired_token :: "nat \<Rightarrow> auth_state \<Rightarrow> bool" where
  "non_expired_token now s =
     (case session s of
        None \<Rightarrow> False
      | Some sess \<Rightarrow> (case expires_at sess of None \<Rightarrow> False | Some e \<Rightarrow> now < e * 1000))"

section \<open>Route guard\<close>

text \<open>
  \<^verbatim>\<open>src/components/auth/ProtectedRoute.tsx\<close>. The prop \<^verbatim>\<open>requiredRole\<close> is absent, one
  role or an array of roles; an absent prop and an empty string are falsy, an array is
  truthy even when empty.
\<close>

datatype required_role = NoRequiredRole | OneRole string | RoleArray "string list"

definition required_roles :: "required_role \<Rightarrow> string list option" where
  "required_roles r =
     (case r of
        NoRequiredRole \<Rightarrow> None
      | OneRole x \<Rightarrow> (if x = [] then None else Some [x])
      | RoleArray xs \<Rightarrow> Some xs)"


datatype guard_view =
  VerifyingAuthentication
| Navigate string string
| AccountDeactivated
| SetupRequired
| AccessDenied "string list"
| Content

text \<open>What the hook hands to the guard, the guard's own flag and the requested path.\<close>

record guard_input =
  g_user :: "app_user option"
  g_loading :: bool
  g_isAuthenticated :: bool
  g_hospitalId :: "string option"
  sessionChecked :: bool
  pathname :: string

definition ProtectedRoute :: "required_role \<Rightarrow> string \<Rightarrow> guard_input \<Rightarrow> guard_view" where
  "ProtectedRoute requiredRole fallbackPath i =
     (if g_loading i \<or> \<not> sessionChecked i then VerifyingAuthentication
      else if \<not> g_isAuthenticated i \<or> g_user i = None then Navigate fallbackPath (pathname i)
      else if \<not> is_active (the (g_user i)) then AccountDeactivated
      else if \<not> truthy_string (g_hospitalId i) then SetupRequired
      else
        (case required_roles requiredRole of
           Some roles \<Rightarrow>
             if role (the (g_user i)) \<notin> set roles then AccessDenied roles else Content
         | None \<Rightarrow> Content))"



text \<open>The guard's effect: once the hook is no longer loading, the session counts as checked.\<close>

definition session_check_effect :: "guard_input \<Rightarrow> guard_input" where
  "session_check_effect i = (if \<not> g_loading i then i\<lparr>sessionChecked := True\<rparr> else i)"

section \<open>Example values\<close>

text \<open>A nurse of one hospital, a session of hers, and the store after she has signed in.\<close>

definition example_user :: app_user where
  "example_user =
     \<lparr>user_id = ''u-1'', hospital_id = Some ''hosp-1'', role = ''nurse'', is_active = True\<rparr>"

definition example_session :: session where
  "example_session =
     \<lparr>access_token = ''token-1'', expires_at = Some 1700003600, session_user = Some ''u-1''\<rparr>"

definition example_credentials :: "signin_response awaited" where
  "example_credentials =
     Resolved \<lparr>data_user = Some ''u-1'', data_session = Some example_session,
       signin_error = None\<rparr>"

definition signed_in_store :: store where
  "signed_in_store =
     snd (signIn example_credentials (Resolved (Row example_user)) (Resolved None) initial_store)"


section \<open>The store's invariant\<close>

text \<open>
  In the state and in the stored snapshot alike, the authentication flag is set only
  when a user profile is there.
\<close>

definition store_inv :: "store \<Rightarrow> bool" where
  "store_inv st =
     ((isAuthenticated (mem st) \<longrightarrow> user (mem st) \<noteq> None)
      \<and> (case storage st of
           None \<Rightarrow> True
         | Some snap \<Rightarrow> snap_isAuthenticated snap \<longrightarrow> snap_user snap \<noteq> None))"

section \<open>Properties of the field arrays\<close>

lemma remove_at_append_last: "remove_at (length xs) (xs @ [x]) = xs"
  by (induction xs) simp_all

lemma remove_at_take_drop: "remove_at i xs = take i xs @ drop (Suc i) xs"
  by (induction i xs rule: remove_at.induct) simp_all

lemma remove_at_subseq: "subseq (remove_at i xs) xs"
  by (induction i xs rule: remove_at.induct) auto

lemma remove_at_length: "i < length xs \<Longrightarrow> length (remove_at i xs) = length xs - 1"
  by (induction i xs rule: remove_at.induct) simp_all

lemma remove_at_nth_before: "j < i \<Longrightarrow> j < length xs - 1 \<Longrightarrow> remove_at i xs ! j = xs ! j"
proof (induction i xs arbitrary: j rule: remove_at.induct)
  case (3 i x xs)
  then show ?case by (cases j) simp_all
qed simp_all

lemma remove_at_nth_after:
  "i \<le> j \<Longrightarrow> j < length xs - 1 \<Longrightarrow> remove_at i xs ! j = xs ! Suc j"
proof (induction i xs arbitrary: j rule: remove_at.induct)
  case (3 i x xs)
  then show ?case by (cases j) simp_all
qed simp_all

text \<open>
  C7. \<^verbatim>\<open>addMedication\<close> appends one entry to the medication list, which then is one
  longer; removing that entry by its position (the old length) gives back the list, and
  the whole page, as it was, so the list has its prior length and its prior entries in
  their prior order. In every section, removing position \<open>i\<close> leaves the entries before
  \<open>i\<close> followed by the entries after \<open>i\<close>, a subsequence of the old list: the relative
  order of the remaining entries is unchanged.
\<close>

theorem C7_add_remove_medication_stable_order:
  "medications (form (addMedication p))
     = medications (form p)
       @ [\<lparr>med_type = ''Tablet'', med_name = '''', med_dose = '''', med_frequency = ''BD'',
           med_duration = ''5 days'', med_quantity = ''10'',
           med_instruction = ''After food''\<rparr>]
   \<and> length (medications (form (addMedication p))) = Suc (length (medications (form p)))
   \<and> medications (form (removeMedication (length (medications (form p))) (addMedication p)))
       = medications (form p)
   \<and> removeMedication (length (medications (form p))) (addMedication p) = p
   \<and> length (medications (form (removeMedication (length (medications (form p)))
        (addMedication p)))) = length (medications (form p))
   \<and> symptoms (form (removeSymptom i p))
        = take i (symptoms (form p)) @ drop (Suc i) (symptoms (form p))
   \<and> diagnosis (form (removeDiagnosis i p))
        = take i (diagnosis (form p)) @ drop (Suc i) (diagnosis (form p))
   \<and> medications (form (removeMedication i p))
        = take i (medications (form p)) @ drop (Suc i) (medications (form p))
   \<and> investigations (form (removeInvestigation i p))
        = take i (investigations (form p)) @ drop (Suc i) (investigations (form p))
   \<and> advice (form (removeAdvice i p))
        = take i (advice (form p)) @ drop (Suc i) (advice (form p))
   \<and> subseq (symptoms (form (removeSymptom i p))) (symptoms (form p))
   \<and> subseq (diagnosis (form (removeDiagnosis i p))) (diagnosis (form p))
   \<and> subseq (medications (form (removeMedication i p))) (medications (form p))
   \<and> subseq (investigations (form (removeInvestigation i p))) (investigations (form p))
   \<and> subseq (advice (form (removeAdvice i p))) (advice (form p))"
proof -
  have appended: "medications (form (addMedication p))
     = medications (form p)
       @ [\<lparr>med_type = ''Tablet'', med_name = '''', med_dose = '''', med_frequency = ''BD'',
           med_duration = ''5 days'', med_quantity = ''10'',
           med_instruction = ''After food''\<rparr>]"
    by (simp add: addMedication_def appendMedication_def append_entry_def)
  have restored: "removeMedication (length (medications (form p))) (addMedication p) = p"
    by (simp add: removeMedication_def addMedication_def appendMedication_def
        append_entry_def remove_at_append_last)
  show ?thesis
    unfolding restored appended
    by (simp add: removeSymptom_def removeDiagnosis_def removeMedication_def
        removeInvestigation_def removeAdvice_def remove_at_subseq
        remove_at_take_drop [symmetric])
qed

text \<open>
  C10. Each add operation fills in fixed defaults: \<^verbatim>\<open>addSymptom\<close> appends an entry with
  severity "Mild" and duration "1 day"; \<^verbatim>\<open>addDiagnosis\<close> appends an entry of type
  primary; adding a lab or a radiology investigation appends an entry with urgency
  "Routine" and empty instructions.
\<close>

theorem C10_add_defaults:
  "symptoms (form (addSymptom n p))
     = symptoms (form p) @ [\<lparr>sym_name = n, sym_severity = ''Mild'', sym_duration = ''1 day''\<rparr>]
   \<and> diagnosis (form (addDiagnosis (c, dn) p))
     = diagnosis (form p) @ [\<lparr>dx_code = c, dx_name = dn, dx_type = primary\<rparr>]
   \<and> investigations (form (addLabInvestigation t p))
     = investigations (form p)
       @ [\<lparr>inv_type = lab, inv_name = t, inv_urgency = ''Routine'', inv_instructions = ''''\<rparr>]
   \<and> investigations (form (addRadiologyInvestigation t p))
     = investigations (form p)
       @ [\<lparr>inv_type = radiology, inv_name = t, inv_urgency = ''Routine'',
           inv_instructions = ''''\<rparr>]"
  by (simp add: addSymptom_def addDiagnosis_def addLabInvestigation_def
      addRadiologyInvestigation_def appendSymptom_def appendDiagnosis_def
      appendInvestigation_def append_entry_def)

section \<open>Properties of the save pipeline\<close>

lemma out_of_range_fails: "out_of_range lo hi v \<Longrightarrow> \<not> number_min_max lo hi v"
  by (cases v) auto

lemma handleSubmit_invalid:
  "consultationSchema v \<noteq> [] \<Longrightarrow>
   handleSubmit ctx fr now store v = (ValidationFailed (consultationSchema v), [])"
  by (cases "consultationSchema v") (simp_all add: handleSubmit_def)

text \<open>
  C2. A record whose weight is 1000, or in which any vital sign given as a number lies
  outside its declared range, does not pass the schema: submitting it ends in a
  validation failure that carries the schema's issues, and no update call is issued to
  the appointment store.
\<close>

theorem C2_out_of_range_rejected:
  assumes "weight v = Num 1000 \<or> out_of_range 0 500 (weight v)
     \<or> out_of_range 0 300 (height v)
     \<or> out_of_range 50 300 (systolic v) \<or> out_of_range 30 200 (diastolic v)
     \<or> out_of_range 30 200 (pulse v) \<or> out_of_range 90 110 (temperature v)
     \<or> out_of_range 70 100 (spo2 v)"
  shows "consultationSchema v \<noteq> []
     \<and> handleSubmit ctx fr now store v = (ValidationFailed (consultationSchema v), [])"
proof -
  have "consultationSchema v \<noteq> []"
    using assms
    by (auto simp: consultationSchema_def issue_def dest: out_of_range_fails)
  then show ?thesis by (simp add: handleSubmit_invalid)
qed

theorem C2_out_of_range_rejected_witness:
  "weight (defaultValues\<lparr>weight := Num 1000\<rparr>) = Num 1000
   \<and> handleSubmit example_context (\<lambda>x. '''') ''2024-03-01T10:00:00.000Z'' (\<lambda>c. None)
       (defaultValues\<lparr>weight := Num 1000\<rparr>)
     = (ValidationFailed [''weight''], [])"
  using C2_out_of_range_rejected [of "defaultValues\<lparr>weight := Num 1000\<rparr>" example_context
      "\<lambda>x. ''''" "''2024-03-01T10:00:00.000Z''" "\<lambda>c. None"]
  by (simp add: defaultValues_def consultationSchema_def issue_def)

text \<open>
  C5. For a record that passes the schema, submitted from a page that has its appointment,
  hospital and user, the one patch handed to the appointment store has
  \<^verbatim>\<open>blood_pressure\<close> "120/80" when systolic is 120 and diastolic is 80, in general the
  rendering of systolic, a slash and the rendering of diastolic, and null when either of
  the two is omitted.
\<close>

theorem C5_blood_pressure:
  assumes "consultationSchema data = []"
    and "truthy_string (appointmentId ctx)" and "truthy_string (ctx_hospitalId ctx)"
    and "ctx_user ctx \<noteq> None"
  shows "\<exists>patch. snd (handleSubmit ctx fr now store data) = [(the (appointmentId ctx), patch)]
     \<and> (systolic data = Num 120 \<and> diastolic data = Num 80
          \<longrightarrow> blood_pressure (vital_signs patch) = Some ''120/80'')
     \<and> (\<forall>s d. systolic data = Num s \<and> diastolic data = Num d
          \<longrightarrow> blood_pressure (vital_signs patch)
              = Some (Number_toString fr s @ ''/'' @ Number_toString fr d))
     \<and> (systolic data = Undefined \<or> diastolic data = Undefined
          \<longrightarrow> blood_pressure (vital_signs patch) = None)"
proof -
  let ?patch = "update_patch fr now data"
  have sent: "snd (handleSubmit ctx fr now store data) = [(the (appointmentId ctx), ?patch)]"
    using assms by (simp add: handleSubmit_def onSubmit_def Let_def split: option.splits)
  have sys: "number_min_max 50 300 (systolic data)"
    and dia: "number_min_max 30 200 (diastolic data)"
    using assms(1) by (auto simp: consultationSchema_def issue_def split: if_splits)
  have bp: "blood_pressure (vital_signs ?patch)
      = blood_pressure_of fr (systolic data) (diastolic data)"
    by (simp add: update_patch_def)
  have general: "blood_pressure_of fr (systolic data) (diastolic data)
      = Some (Number_toString fr s @ ''/'' @ Number_toString fr d)"
    if "systolic data = Num s" "diastolic data = Num d" for s d
    using that sys dia by (simp add: blood_pressure_of_def)
  have concrete: "blood_pressure_of fr (Num 120) (Num 80) = Some ''120/80''"
    by (simp add: blood_pressure_of_def Number_toString_def nat_to_string.simps digit_char_def)
  have omitted: "blood_pressure_of fr (systolic data) (diastolic data) = None"
    if "systolic data = Undefined \<or> diastolic data = Undefined"
    using that by (auto simp: blood_pressure_of_def split: jsnum.splits)
  show ?thesis
    using sent bp general concrete omitted by (intro exI [of _ ?patch]) auto
qed

theorem C5_blood_pressure_witness:
  "consultationSchema (defaultValues\<lparr>systolic := Num 120, diastolic := Num 80\<rparr>) = []
   \<and> truthy_string (appointmentId example_context)
   \<and> truthy_string (ctx_hospitalId example_context)
   \<and> ctx_user example_context \<noteq> None
   \<and> map (\<lambda>c. (fst c, blood_pressure (vital_signs (snd c))))
       (snd (handleSubmit example_context (\<lambda>x. '''') ''2024-03-01T10:00:00.000Z'' (\<lambda>c. None)
          (defaultValues\<lparr>systolic := Num 120, diastolic := Num 80\<rparr>)))
     = [(''apt-1'', Some ''120/80'')]"
  using C5_blood_pressure [of "defaultValues\<lparr>systolic := Num 120, diastolic := Num 80\<rparr>"
      example_context "\<lambda>x. ''''" "''2024-03-01T10:00:00.000Z''" "\<lambda>c. None"]
  by (auto simp: defaultValues_def consultationSchema_def issue_def example_context_def
      truthy_string_def)

section \<open>Properties of the follow-up quick pick\<close>

lemma add_days_within_month:
  "d + n \<le> days_in_month y m \<Longrightarrow>
   add_days n \<lparr>year = y, month = m, day = d\<rparr> = \<lparr>year = y, month = m, day = d + n\<rparr>"
  by (induction n arbitrary: d) (simp_all add: next_day_def)

lemma days_in_month_ge_28: "28 \<le> days_in_month y m"
  by (simp add: days_in_month_def)

text \<open>"As needed" sets the label and nothing else; every pick sets the label.\<close>

lemma quickPick_as_needed:
  "quickPick tz now ''As needed'' f = f\<lparr>followUpDuration := Some ''As needed''\<rparr>"
  by (simp add: quickPick_def Let_def)

lemma quickPick_duration: "followUpDuration (quickPick tz now duration f) = Some duration"
  by (simp add: quickPick_def Let_def)

text \<open>
  Where the local date and the UTC date agree and the day exists in every month, "1 month"
  gives the same day of the next month.
\<close>

lemma quickPick_one_month_plain:
  assumes "1 \<le> day (local_date now)" and "day (local_date now) \<le> 28"
    and "tz \<le> int (minute_of_day now)" and "int (minute_of_day now) - tz < 1440"
  shows "followUpDate (quickPick tz now ''1 month'' f)
    = Some (iso_date_string \<lparr>year = year (local_date now) + (month (local_date now) + 1) div 12,
         month = (month (local_date now) + 1) mod 12, day = day (local_date now)\<rparr>)"
proof -
  let ?y = "year (local_date now) + (month (local_date now) + 1) div 12"
  let ?m = "(month (local_date now) + 1) mod 12"
  have "1 + (day (local_date now) - 1) \<le> days_in_month ?y ?m"
    using assms(1,2) days_in_month_ge_28 [of ?y ?m] by simp
  from add_days_within_month [OF this]
  have "add_days (day (local_date now) - 1) \<lparr>year = ?y, month = ?m, day = 1\<rparr>
      = \<lparr>year = ?y, month = ?m, day = day (local_date now)\<rparr>"
    using assms(1) by simp
  then show ?thesis
    using assms(3,4)
    by (simp add: quickPick_def setMonth_def getMonth_def utc_date_def Let_def)
qed

lemma add_days_numeral:
  "add_days (numeral k) d = add_days (pred_numeral k) (next_day d)"
  by (simp add: numeral_eq_Suc)

lemmas date_eval = quickPick_def setDate_def setMonth_def getDate_def getMonth_def utc_date_def
  iso_date_string_def pad2_def pad4_def nat_to_string.simps digit_char_def next_day_def
  prev_day_def days_in_month_def is_leap_def add_days_numeral Let_def

text \<open>
  C6. The claim: "1 month" sets the follow-up date to exactly one calendar month from
  today, "1 week" adds 7 days. The handler computes the date on the local clock and
  writes the UTC date. On 1 March 2024 at 01:00 on a clock 5 hours 30 minutes ahead of
  UTC, "1 month" gives 2024-03-31 (one calendar month from today is 2024-04-01, which the
  same pick gives at 10:00) and "1 week" gives 2024-03-07, six days ahead. On 31 January
  2024 at noon UTC, "1 month" gives 2024-03-02.
\<close>

theorem C6_quick_pick_utc_shift:
  "followUpDate (quickPick 330
       \<lparr>local_date = \<lparr>year = 2024, month = 2, day = 1\<rparr>, minute_of_day = 60\<rparr>
       ''1 month'' defaultValues) = Some ''2024-03-31''
   \<and> followUpDuration (quickPick 330
       \<lparr>local_date = \<lparr>year = 2024, month = 2, day = 1\<rparr>, minute_of_day = 60\<rparr>
       ''1 month'' defaultValues) = Some ''1 month''
   \<and> followUpDate (quickPick 330
       \<lparr>local_date = \<lparr>year = 2024, month = 2, day = 1\<rparr>, minute_of_day = 60\<rparr>
       ''1 week'' defaultValues) = Some ''2024-03-07''
   \<and> followUpDate (quickPick 330
       \<lparr>local_date = \<lparr>year = 2024, month = 2, day = 1\<rparr>, minute_of_day = 600\<rparr>
       ''1 month'' defaultValues) = Some ''2024-04-01''
   \<and> followUpDate (quickPick 0
       \<lparr>local_date = \<lparr>year = 2024, month = 0, day = 31\<rparr>, minute_of_day = 720\<rparr>
       ''1 month'' defaultValues) = Some ''2024-03-02''"
  by (simp add: date_eval)

section \<open>Properties of the session store\<close>

lemma inv_set_state:
  "(isAuthenticated (upd (mem st)) \<longrightarrow> user (upd (mem st)) \<noteq> None) \<Longrightarrow>
   store_inv (set_state upd st)"
  by (simp add: store_inv_def set_state_def partialize_def Let_def)

lemma inv_setLoading: "store_inv st \<Longrightarrow> store_inv (setLoading b st)"
  unfolding setLoading_def by (rule inv_set_state) (simp add: store_inv_def)

lemma inv_setSession: "store_inv st \<Longrightarrow> store_inv (setSession x st)"
  unfolding setSession_def by (rule inv_set_state) (simp add: store_inv_def)

lemma inv_setUser: "store_inv (setUser u st)"
  unfolding setUser_def by (rule inv_set_state) simp

lemma inv_rehydrate: "store_inv st \<Longrightarrow> store_inv (rehydrate st)"
  by (auto simp: store_inv_def rehydrate_def initial_state_def split: option.splits)

lemma inv_removeItem: "store_inv st \<Longrightarrow> store_inv (removeItem st)"
  by (simp add: store_inv_def removeItem_def)

lemma inv_updateProfile_resume:
  "store_inv st \<Longrightarrow> store_inv (snd (updateProfile_resume updated st))"
  by (auto simp: updateProfile_resume_def intro!: inv_set_state
      split: awaited.splits single.splits)

lemma pending_inv: "reachable_pending n st \<Longrightarrow> store_inv st"
proof (induction rule: reachable_pending.induct)
  case start
  show ?case by (simp add: store_inv_def initial_store_def initial_state_def)
next
  case (signed_in n st userProfile x)
  show ?case by (rule inv_set_state) simp
next
  case (initialized n st userProfile sess)
  show ?case by (rule inv_set_state) simp
next
  case (signed_out n st)
  show ?case by (rule inv_set_state) simp
qed (simp_all add: inv_rehydrate inv_setLoading inv_setSession inv_setUser inv_removeItem
    inv_updateProfile_resume)

text \<open>
  Each action, run from its first step to its last with nothing in between, is one such
  sequence of writes.
\<close>

lemma pending_loading:
  "reachable_pending n st \<Longrightarrow> reachable_pending n (set_state (\<lambda>s. s\<lparr>loading := b\<rparr>) st)"
  using reachable_pending.loading [of n st b] by (simp add: setLoading_def)

lemma pending_signIn:
  "reachable_pending n st \<Longrightarrow>
   reachable_pending n (snd (signIn credentials profile lastLogin st))"
  by (auto simp: signIn_def Let_def split: awaited.splits option.splits single.splits
      intro!: pending_loading reachable_pending.signed_in)

lemma pending_signUp:
  "reachable_pending n st \<Longrightarrow>
   reachable_pending n (snd (signUp registration profileInsert st))"
  by (auto simp: signUp_def Let_def split: awaited.splits option.splits
      intro!: pending_loading)

lemma pending_store_signOut:
  "reachable_pending n st \<Longrightarrow> reachable_pending n (store_signOut backend st)"
  by (auto simp: store_signOut_def split: awaited.splits
      intro!: reachable_pending.signed_out)

lemma pending_initialize:
  "reachable_pending n st \<Longrightarrow> reachable_pending n (initialize current profile st)"
  by (auto simp: initialize_def Let_def split: awaited.splits option.splits single.splits
      intro!: pending_loading reachable_pending.initialized)

lemma pending_useAuth_signOut:
  "reachable_pending n st \<Longrightarrow> reachable_pending n (fst (useAuth_signOut backend st))"
  by (simp add: useAuth_signOut_def Let_def reachable_pending.loading
      reachable_pending.removed pending_store_signOut)

lemma pending_onAuthStateChange:
  "reachable_pending n st \<Longrightarrow>
   reachable_pending n (onAuthStateChange event sess profile lastLogin st)"
  by (auto simp: onAuthStateChange_def Let_def split: awaited.splits single.splits
      intro!: reachable_pending.loading reachable_pending.session reachable_pending.user)

lemma pending_store_onAuthStateChange:
  "reachable_pending n st \<Longrightarrow>
   reachable_pending n (store_onAuthStateChange event sess profile st)"
  by (auto simp: store_onAuthStateChange_def Let_def split: awaited.splits single.splits
      intro!: reachable_pending.loading reachable_pending.session reachable_pending.user)

lemma pending_refreshSession:
  "reachable_pending n st \<Longrightarrow>
   reachable_pending n (refreshSession refreshed profile backend st)"
  by (auto simp: refreshSession_def Let_def
      split: awaited.splits single.splits option.splits prod.splits
      intro!: reachable_pending.loading reachable_pending.session reachable_pending.user
        pending_useAuth_signOut)

lemma pending_updateProfile:
  "reachable_pending n st \<Longrightarrow> updateProfile_start st = Inr u \<Longrightarrow>
   reachable_pending n (snd (updateProfile_resume updated st))"
  by (intro reachable_pending.update_resumed reachable_pending.update_started)

lemma pending_signed_in_store: "reachable_pending 0 signed_in_store"
  unfolding signed_in_store_def by (intro pending_signIn reachable_pending.start)

lemmas store_eval = signIn_def set_state_def partialize_def initial_store_def initial_state_def
  example_credentials_def signed_in_store_def useAuth_signOut_def store_signOut_def
  setLoading_def removeItem_def rehydrate_def Let_def

text \<open>
  When the backend's sign-out call resolves, with an error value or without, both
  \<^verbatim>\<open>signOut\<close> functions clear the state, and the snapshot written last holds the cleared
  values.
\<close>

lemma signOut_resolved_clears:
  "user (mem (fst (useAuth_signOut (Resolved r) st))) = None
   \<and> session (mem (fst (useAuth_signOut (Resolved r) st))) = None
   \<and> hospitalId (mem (fst (useAuth_signOut (Resolved r) st))) = None
   \<and> isAuthenticated (mem (fst (useAuth_signOut (Resolved r) st))) = False
   \<and> storage (fst (useAuth_signOut (Resolved r) st))
       = Some \<lparr>snap_user = None, snap_hospitalId = None, snap_isAuthenticated = False\<rparr>
   \<and> snd (useAuth_signOut (Resolved r) st) = Some ''/login''
   \<and> mem (store_signOut (Resolved r) st)
       = \<lparr>user = None, session = None, loading = False, hospitalId = None,
          isAuthenticated = False\<rparr>"
  by (simp add: useAuth_signOut_def store_signOut_def setLoading_def removeItem_def
      set_state_def partialize_def Let_def)

text \<open>
  C3. The claim: \<^verbatim>\<open>signOut\<close> clears the session state and removes the persisted snapshot
  even when the backend's sign-out call fails. The code does so when the call resolves
  with an error value, and does not when the call is rejected: from the signed-in store,
  the store's \<^verbatim>\<open>signOut\<close> leaves the user and the flag, and after the hook's \<^verbatim>\<open>signOut\<close>
  the user, the session, the hospital id and the flag are all still there, the browser is
  sent to \<^verbatim>\<open>/login\<close>, and the entry in local storage, removed and then written again,
  holds the signed-in user.
\<close>

theorem C3_signOut_rejected_keeps_session:
  "user (mem (fst (useAuth_signOut (Rejected ''network error'') signed_in_store)))
       = Some example_user
   \<and> session (mem (fst (useAuth_signOut (Rejected ''network error'') signed_in_store)))
       = Some example_session
   \<and> hospitalId (mem (fst (useAuth_signOut (Rejected ''network error'') signed_in_store)))
       = Some ''hosp-1''
   \<and> isAuthenticated (mem (fst (useAuth_signOut (Rejected ''network error'') signed_in_store)))
   \<and> storage (fst (useAuth_signOut (Rejected ''network error'') signed_in_store))
       = Some \<lparr>snap_user = Some example_user, snap_hospitalId = Some ''hosp-1'',
           snap_isAuthenticated = True\<rparr>
   \<and> snd (useAuth_signOut (Rejected ''network error'') signed_in_store) = Some ''/login''
   \<and> user (mem (store_signOut (Rejected ''network error'') signed_in_store))
       = Some example_user
   \<and> isAuthenticated (mem (store_signOut (Rejected ''network error'') signed_in_store))"
  by (simp add: store_eval example_user_def)

text \<open>
  A profile can be present with the flag off: from the signed-in store, a call of
  \<^verbatim>\<open>updateProfile\<close> starts, a sign-out completes during its await, and the call resumes
  and writes the updated user.
\<close>

lemma profile_update_after_sign_out:
  "reachable (snd (updateProfile_resume (Resolved (Row example_user))
      (store_signOut (Resolved None) signed_in_store)))
   \<and> user (mem (snd (updateProfile_resume (Resolved (Row example_user))
      (store_signOut (Resolved None) signed_in_store)))) = Some example_user
   \<and> \<not> isAuthenticated (mem (snd (updateProfile_resume (Resolved (Row example_user))
      (store_signOut (Resolved None) signed_in_store))))"
proof -
  have "updateProfile_start signed_in_store = Inr example_user"
    by (simp add: updateProfile_start_def store_eval)
  with pending_signed_in_store have "reachable_pending (Suc 0) signed_in_store"
    by (rule reachable_pending.update_started)
  then have "reachable_pending (Suc 0) (store_signOut (Resolved None) signed_in_store)"
    by (rule pending_store_signOut)
  then have "reachable_pending 0 (snd (updateProfile_resume (Resolved (Row example_user))
      (store_signOut (Resolved None) signed_in_store)))"
    by (rule reachable_pending.update_resumed)
  then show ?thesis
    by (auto simp: reachable_def updateProfile_resume_def store_eval)
qed

text \<open>
  C4, as amended. In every reachable state of the store, between the awaits of running
  actions as well as after them, the authentication flag is set only when a user profile
  is present; the session token has no part in it.
\<close>

theorem C4_authenticated_implies_user:
  "reachable st \<Longrightarrow> isAuthenticated (mem st) \<longrightarrow> user (mem st) \<noteq> None"
  using pending_inv by (auto simp: reachable_def store_inv_def)

theorem C4_authenticated_implies_user_witness:
  "reachable signed_in_store
   \<and> isAuthenticated (mem signed_in_store)
   \<and> user (mem signed_in_store) = Some example_user"
proof -
  have r: "reachable signed_in_store"
    using pending_signed_in_store by (auto simp: reachable_def)
  from C4_authenticated_implies_user [OF r] r show ?thesis
    by (simp add: store_eval)
qed

text \<open>
  C4 as stated fails after a page load: the snapshot restores the user and the flag but
  no session, so the store is authenticated with no token at all.
\<close>

theorem C4_no_token_counterexample:
  "reachable (rehydrate signed_in_store)
   \<and> isAuthenticated (mem (rehydrate signed_in_store))
   \<and> user (mem (rehydrate signed_in_store)) = Some example_user
   \<and> session (mem (rehydrate signed_in_store)) = None
   \<and> \<not> non_expired_token 0 (mem (rehydrate signed_in_store))"
proof -
  have "reachable_pending 0 (rehydrate signed_in_store)"
    using pending_signed_in_store by (rule reachable_pending.reload)
  then have "reachable (rehydrate signed_in_store)"
    by (auto simp: reachable_def)
  then show ?thesis
    by (simp add: store_eval non_expired_token_def)
qed

text \<open>
  When the last-login write resolves, with an error value or without, \<^verbatim>\<open>signIn\<close> returns
  success with the store updated.
\<close>

lemma signIn_write_resolved_succeeds:
  "signIn (Resolved \<lparr>data_user = Some uid, data_session = sess, signin_error = None\<rparr>)
       (Resolved (Row userProfile)) (Resolved w) st
     = (Success,
        set_state (\<lambda>s. s\<lparr>user := Some userProfile, session := sess,
            hospitalId := hospital_id userProfile, isAuthenticated := True,
            loading := False\<rparr>)
          (set_state (\<lambda>s. s\<lparr>loading := True\<rparr>) st))"
  by (simp add: signIn_def Let_def)

text \<open>
  C9. The claim: after a successful credential check and profile fetch, a failure of the
  last-login write does not make \<^verbatim>\<open>signIn\<close> return failure. The code ignores what the
  write resolves with, but it awaits the write inside its \<^verbatim>\<open>try\<close> block: when the write
  is rejected, \<^verbatim>\<open>signIn\<close> returns failure with the write's message, although the store
  is already signed in.
\<close>

theorem C9_signIn_write_rejected_returns_failure:
  "fst (signIn example_credentials (Resolved (Row example_user)) (Rejected ''Failed to fetch'')
          initial_store) = Failure ''Failed to fetch''
   \<and> mem (snd (signIn example_credentials (Resolved (Row example_user))
          (Rejected ''Failed to fetch'') initial_store))
       = \<lparr>user = Some example_user, session = Some example_session, loading = False,
          hospitalId = Some ''hosp-1'', isAuthenticated = True\<rparr>
   \<and> fst (signIn example_credentials (Resolved (Row example_user))
          (Resolved (Some ''update failed'')) initial_store) = Success"
  by (simp add: store_eval example_user_def)

section \<open>Properties of the route guard\<close>


text \<open>After the guard's effect has run with the hook no longer loading, the loading gate
  is passed.\<close>

lemma session_check_passes_loading_gate:
  "\<not> g_loading i \<Longrightarrow>
   ProtectedRoute rr fb (session_check_effect i) \<noteq> VerifyingAuthentication"
  by (simp add: ProtectedRoute_def session_check_effect_def split: option.splits)


end
